theory Spec2Isabelle
  imports Complex_Main "HOL-Library.AList"
begin

section \<open>The game client of \<^verbatim>\<open>src/game.js\<close>\<close>

text \<open>
  The class \<^verbatim>\<open>GameClient\<close> is one mutable object; every method becomes a function
  from the client state to the client state. JavaScript numbers are modelled as
  \<open>real\<close>. The two coordinate functions round each result to the nearest double
  (\<open>fl\<close> below), since rounding decides what their round trip returns; the other
  arithmetic of the client is written exact. Player snapshots are
  JavaScript objects that the code shares by reference (\<^verbatim>\<open>this.myPlayer\<close> and the
  entry of \<^verbatim>\<open>this.players\<close> are, after a join, the same object), so they live in an
  explicit heap and the client holds addresses. The two \<^verbatim>\<open>Map\<close>s of the client are
  association lists in insertion order: \<open>AList.update\<close> is \<^verbatim>\<open>Map.set\<close> (an existing key
  keeps its place, a new key goes last) and \<open>AList.delete\<close> is \<^verbatim>\<open>Map.delete\<close>.
  Inbound messages are taken with the fields their handler reads. The loading
  screen and the speed indicator of the page are not part of the model.
\<close>

subsection \<open>Data\<close>

type_synonym addr = nat

record player =
  player_id :: string
  username :: string
  pos_x :: real
  pos_y :: real
  facing :: string
  avatar :: string
  animationFrame :: "nat option"

record image =
  image_src :: string
  img_width :: real
  img_height :: real

record avatarData =
  avatar_name :: string
  avatar_frames :: "(string \<times> string list) list"

datatype direction = Up | Down | Left | Right

text \<open>What \<^verbatim>\<open>ws.send\<close> is called with.\<close>

datatype outmsg = JoinGameMsg string | MoveMsg direction | StopMsg

text \<open>What \<^verbatim>\<open>handleMessage\<close> receives, by its \<^verbatim>\<open>action\<close>.\<close>

datatype message =
    JoinGame bool string "(string \<times> player) list" "(string \<times> avatarData) list"
  | PlayersMoved "(string \<times> player) list"
  | PlayerJoined player avatarData
  | PlayerLeft string
  | Unknown string

text \<open>The calls made on a 2D drawing context.\<close>

datatype canvasOp =
    Save
  | Restore
  | Scale real real
  | ClearRect real real real real
  | FillRect real real real real
  | StrokeRect real real real real
  | DrawImage image real real real real
  | DrawImageSub image real real real real real real real real
  | BeginPath
  | Arc real real real real real
  | Fill
  | SetStyle string string
  | SetNum string real
  | FillText string real real
  | StrokeText string real real

record client =
  canvas_width :: real
  canvas_height :: real
  minimap_width :: real
  minimap_height :: real
  worldImage :: "image option"
  worldWidth :: real
  worldHeight :: real
  connected :: bool
  sent :: "outmsg list"
  myPlayerId :: "string option"
  myPlayer :: "addr option"
  heap :: "addr \<Rightarrow> player"
  nextAddr :: addr
  players :: "(string \<times> addr) list"
  avatars :: "(string \<times> avatarData) list"
  avatarImages :: "(string \<times> image) list"
  loadRequests :: "(string \<times> string) list"
  viewportX :: real
  viewportY :: real
  avatarSize :: real
  needsRedraw :: bool
  pressedKeys :: "string set"
  isMoving :: bool
  isRunning :: bool
  minimapScale :: real
  rendered :: "canvasOp list list"
  minimapLog :: "canvasOp list"

text \<open>
  \<open>sent\<close> is the list of messages handed to \<^verbatim>\<open>ws.send\<close>, \<open>loadRequests\<close> the image
  loads started (cache key and source), \<open>rendered\<close> one list of context calls for
  each call of \<^verbatim>\<open>render()\<close>, \<open>minimapLog\<close> the calls on the mini-map context.
\<close>

subsection \<open>Viewport and coordinates\<close>

definition updateViewport :: "client \<Rightarrow> client" where
  "updateViewport s =
     (case myPlayer s of
        None \<Rightarrow> s
      | Some a \<Rightarrow>
          let centerX = canvas_width s / 2;
              centerY = canvas_height s / 2;
              vx = pos_x (heap s a) - centerX;
              vy = pos_y (heap s a) - centerY
          in s\<lparr>viewportX := max 0 (min vx (worldWidth s - canvas_width s)),
               viewportY := max 0 (min vy (worldHeight s - canvas_height s))\<rparr>)"

text \<open>
  The arithmetic of IEEE 754 binary64, the numbers of JavaScript: a result is rounded to
  the nearest number with a significand of 53 bits, a tie to the one whose significand
  is even; below \<open>2 ^ - 1022\<close> the spacing stays \<open>2 ^ - 1074\<close>. \<open>expo x\<close> is the
  exponent \<open>e\<close> with \<open>2 ^ e \<le> \<bar>x\<bar> < 2 ^ (e + 1)\<close>. Results of magnitude \<open>2 ^ 1024\<close> and
  more (\<^verbatim>\<open>Infinity\<close>) and \<^verbatim>\<open>NaN\<close> are not modelled.
\<close>

fun bit_length :: "nat \<Rightarrow> nat" where
  "bit_length n = (if n = 0 then 0 else Suc (bit_length (n div 2)))"

declare bit_length.simps [simp del]

definition pow2 :: "int \<Rightarrow> real" where
  "pow2 k = (if 0 \<le> k then 2 ^ nat k else 1 / 2 ^ nat (- k))"

definition expo :: "real \<Rightarrow> int" where
  "expo x =
     (if 1 \<le> \<bar>x\<bar> then int (bit_length (nat \<lfloor>\<bar>x\<bar>\<rfloor>)) - 1
      else - int (bit_length (nat (\<lceil>1 / \<bar>x\<bar>\<rceil> - 1))))"

definition round_half_even :: "real \<Rightarrow> int" where
  "round_half_even y =
     (let f = \<lfloor>y\<rfloor>; d = y - of_int f
      in if d < 1 / 2 then f else if 1 / 2 < d then f + 1
         else if even f then f else f + 1)"

definition fl :: "real \<Rightarrow> real" where
  "fl x =
     (if x = 0 then 0
      else let q = max (expo x - 52) (- 1074)
           in of_int (round_half_even (x / pow2 q)) * pow2 q)"

text \<open>The finite doubles.\<close>

definition is_double :: "real \<Rightarrow> bool" where
  "is_double x \<longleftrightarrow> \<bar>x\<bar> < 2 ^ 1024 \<and> fl x = x"

text \<open>\<^verbatim>\<open>worldX - this.viewportX\<close> and \<^verbatim>\<open>screenX + this.viewportX\<close>, on doubles.\<close>

definition worldToScreen :: "client \<Rightarrow> real \<times> real \<Rightarrow> real \<times> real" where
  "worldToScreen s p = (fl (fst p - viewportX s), fl (snd p - viewportY s))"

definition screenToWorld :: "client \<Rightarrow> real \<times> real \<Rightarrow> real \<times> real" where
  "screenToWorld s p = (fl (fst p + viewportX s), fl (snd p + viewportY s))"

definition resizeCanvas :: "real \<Rightarrow> real \<Rightarrow> client \<Rightarrow> client" where
  "resizeCanvas innerWidth innerHeight s =
     (let s1 = s\<lparr>canvas_width := innerWidth, canvas_height := innerHeight,
                  minimap_width := 200, minimap_height := 200\<rparr>;
          s2 = (if myPlayer s1 \<noteq> None then updateViewport s1 else s1)
      in s2\<lparr>needsRedraw := True\<rparr>)"

subsection \<open>Sending\<close>

definition joinGame :: "client \<Rightarrow> client" where
  "joinGame s = (if \<not> connected s then s else s\<lparr>sent := sent s @ [JoinGameMsg ''Tim'']\<rparr>)"

definition sendMoveCommand :: "direction \<Rightarrow> client \<Rightarrow> client" where
  "sendMoveCommand d s = (if \<not> connected s then s else s\<lparr>sent := sent s @ [MoveMsg d]\<rparr>)"

definition sendStopCommand :: "client \<Rightarrow> client" where
  "sendStopCommand s = (if \<not> connected s then s else s\<lparr>sent := sent s @ [StopMsg]\<rparr>)"

text \<open>The socket callbacks \<^verbatim>\<open>onopen\<close> and \<^verbatim>\<open>onclose\<close>.\<close>

definition onOpen :: "client \<Rightarrow> client" where
  "onOpen s = joinGame (s\<lparr>connected := True\<rparr>)"

definition onClose :: "client \<Rightarrow> client" where
  "onClose s = s\<lparr>connected := False\<rparr>"

subsection \<open>Keyboard\<close>

definition getMovementDirections :: "client \<Rightarrow> direction list" where
  "getMovementDirections s =
     (if ''ArrowUp'' \<in> pressedKeys s then [Up] else []) @
     (if ''ArrowDown'' \<in> pressedKeys s then [Down] else []) @
     (if ''ArrowLeft'' \<in> pressedKeys s then [Left] else []) @
     (if ''ArrowRight'' \<in> pressedKeys s then [Right] else [])"

fun directionMap :: "direction \<Rightarrow> string" where
  "directionMap Up = ''north''"
| "directionMap Down = ''south''"
| "directionMap Left = ''west''"
| "directionMap Right = ''east''"

definition updatePlayerFacing :: "direction \<Rightarrow> client \<Rightarrow> client" where
  "updatePlayerFacing d s =
     (case myPlayer s of
        None \<Rightarrow> s
      | Some a \<Rightarrow>
          s\<lparr>heap := (heap s)(a := (heap s a)\<lparr>facing := directionMap d\<rparr>),
            needsRedraw := True\<rparr>)"

definition updateMovement :: "client \<Rightarrow> client" where
  "updateMovement s =
     (case getMovementDirections s of
        d # _ \<Rightarrow>
          updateViewport (updatePlayerFacing d ((sendMoveCommand d s)\<lparr>isMoving := True\<rparr>))
      | [] \<Rightarrow> (sendStopCommand s)\<lparr>isMoving := False\<rparr>)"

definition toggleSpeed :: "client \<Rightarrow> client" where
  "toggleSpeed s = s\<lparr>isRunning := \<not> isRunning s\<rparr>"

definition handleKeyDown :: "string \<Rightarrow> client \<Rightarrow> client" where
  "handleKeyDown code s =
     (if code = ''ShiftLeft'' \<or> code = ''ShiftRight'' then toggleSpeed s
      else if code \<in> pressedKeys s then s
      else updateMovement (s\<lparr>pressedKeys := insert code (pressedKeys s)\<rparr>))"

definition handleKeyUp :: "string \<Rightarrow> client \<Rightarrow> client" where
  "handleKeyUp code s = updateMovement (s\<lparr>pressedKeys := pressedKeys s - {code}\<rparr>)"

subsection \<open>Avatar images\<close>

text \<open>The decimal digits of a number, as a template literal prints an index.\<close>

fun string_of_nat :: "nat \<Rightarrow> string" where
  "string_of_nat n =
     (if n < 10 then [char_of (48 + n)]
      else string_of_nat (n div 10) @ [char_of (48 + n mod 10)])"

declare string_of_nat.simps [simp del]

definition imageKey :: "string \<Rightarrow> string \<Rightarrow> nat \<Rightarrow> string" where
  "imageKey avatarName dir i = avatarName @ ''_'' @ dir @ ''_'' @ string_of_nat i"

text \<open>
  \<^verbatim>\<open>loadAvatarImages\<close> starts one load for every frame whose key is not in the cache.
  A load that completes calls \<open>imageLoaded\<close>; when all loads of one call have
  completed, \<open>imagesReady\<close> runs.
\<close>

definition loadAvatarImages :: "string \<Rightarrow> avatarData \<Rightarrow> client \<Rightarrow> client" where
  "loadAvatarImages avatarName a s =
     s\<lparr>loadRequests := loadRequests s @
          concat (map (\<lambda>(dir, frs).
                    map (\<lambda>i. (imageKey avatarName dir i, frs ! i))
                      (filter (\<lambda>i. map_of (avatarImages s) (imageKey avatarName dir i) = None)
                         [0 ..< length frs]))
                  (avatar_frames a))\<rparr>"

definition imageLoaded :: "string \<Rightarrow> image \<Rightarrow> client \<Rightarrow> client" where
  "imageLoaded k img s = s\<lparr>avatarImages := AList.update k img (avatarImages s)\<rparr>"

definition imagesReady :: "client \<Rightarrow> client" where
  "imagesReady s = s\<lparr>needsRedraw := True\<rparr>"

definition worldImageLoaded :: "real \<Rightarrow> real \<Rightarrow> client \<Rightarrow> client" where
  "worldImageLoaded w h s =
     s\<lparr>worldImage := map_option (\<lambda>i. i\<lparr>img_width := w, img_height := h\<rparr>) (worldImage s),
       needsRedraw := True\<rparr>"

subsection \<open>Inbound messages\<close>

text \<open>
  \<^verbatim>\<open>JSON.parse\<close> builds one new object for every player snapshot of a message;
  \<open>parsePlayers\<close> allocates them and returns the parsed object: its keys, each with
  the address of its snapshot.
\<close>

fun parsePlayers :: "(string \<times> player) list \<Rightarrow> client \<Rightarrow> (string \<times> addr) list \<times> client" where
  "parsePlayers [] s = ([], s)"
| "parsePlayers ((k, p) # ps) s =
     (let a = nextAddr s;
          r = parsePlayers ps (s\<lparr>heap := (heap s)(a := p), nextAddr := Suc a\<rparr>)
      in ((k, a) # fst r, snd r))"

definition setPlayers :: "(string \<times> addr) list \<Rightarrow> (string \<times> addr) list \<Rightarrow> (string \<times> addr) list" where
  "setPlayers refs al = fold (\<lambda>(playerId, a). AList.update playerId a) refs al"

text \<open>The loop of \<^verbatim>\<open>handleJoinGame\<close> over the avatar descriptors of the message.\<close>

definition storeAvatars :: "(string \<times> avatarData) list \<Rightarrow> client \<Rightarrow> client" where
  "storeAvatars avs s =
     fold (\<lambda>(avatarName, a) t.
             loadAvatarImages avatarName a
               (t\<lparr>avatars := AList.update avatarName a (avatars t)\<rparr>))
       avs s"

definition handleJoinGame ::
  "bool \<Rightarrow> string \<Rightarrow> (string \<times> player) list \<Rightarrow> (string \<times> avatarData) list \<Rightarrow> client \<Rightarrow> client" where
  "handleJoinGame success playerId ps avs s =
     (if success then
        let r = parsePlayers ps s;
            s1 = (snd r)\<lparr>myPlayerId := Some playerId, myPlayer := map_of (fst r) playerId\<rparr>;
            s2 = s1\<lparr>players := setPlayers (fst r) []\<rparr>;
            s3 = storeAvatars avs (s2\<lparr>avatars := []\<rparr>);
            s4 = updateViewport s3
        in s4\<lparr>needsRedraw := True\<rparr>
      else s)"

definition handlePlayersMoved :: "(string \<times> player) list \<Rightarrow> client \<Rightarrow> client" where
  "handlePlayersMoved ps s =
     (let r = parsePlayers ps s;
          s1 = (snd r)\<lparr>players := setPlayers (fst r) (players (snd r))\<rparr>
      in s1\<lparr>needsRedraw := True\<rparr>)"

definition handlePlayerJoined :: "player \<Rightarrow> avatarData \<Rightarrow> client \<Rightarrow> client" where
  "handlePlayerJoined p a s =
     (let r = parsePlayers [(player_id p, p)] s;
          s1 = (snd r)\<lparr>players := setPlayers (fst r) (players (snd r))\<rparr>;
          s2 = s1\<lparr>avatars := AList.update (avatar_name a) a (avatars s1)\<rparr>;
          s3 = loadAvatarImages (avatar_name a) a s2
      in s3\<lparr>needsRedraw := True\<rparr>)"

definition handlePlayerLeft :: "string \<Rightarrow> client \<Rightarrow> client" where
  "handlePlayerLeft playerId s =
     s\<lparr>players := AList.delete playerId (players s), needsRedraw := True\<rparr>"

fun handleMessage :: "message \<Rightarrow> client \<Rightarrow> client" where
  "handleMessage (JoinGame success playerId ps avs) s = handleJoinGame success playerId ps avs s"
| "handleMessage (PlayersMoved ps) s = handlePlayersMoved ps s"
| "handleMessage (PlayerJoined p a) s = handlePlayerJoined p a s"
| "handleMessage (PlayerLeft playerId) s = handlePlayerLeft playerId s"
| "handleMessage (Unknown action) s = s"

text \<open>\<^verbatim>\<open>this.players.get(id)\<close>, read through the heap.\<close>

definition getPlayer :: "client \<Rightarrow> string \<Rightarrow> player option" where
  "getPlayer s k = map_option (heap s) (map_of (players s) k)"

subsection \<open>Rendering\<close>

definition drawWorldMap :: "client \<Rightarrow> canvasOp list" where
  "drawWorldMap s =
     (case worldImage s of
        None \<Rightarrow> []
      | Some img \<Rightarrow>
          [DrawImageSub img (viewportX s) (viewportY s) (canvas_width s) (canvas_height s)
             0 0 (canvas_width s) (canvas_height s)])"

definition drawPlayerGlow :: "client \<Rightarrow> real \<Rightarrow> real \<Rightarrow> canvasOp list" where
  "drawPlayerGlow s x y =
     [Save, SetStyle ''shadowColor'' ''#00ff00'', SetNum ''shadowBlur'' 20,
      SetNum ''shadowOffsetX'' 0, SetNum ''shadowOffsetY'' 0,
      BeginPath, Arc x y (avatarSize s / 2 + 5) 0 (2 * pi),
      SetStyle ''fillStyle'' ''rgba(0, 255, 0, 0.3)'', Fill, Restore]"

definition drawAvatar :: "client \<Rightarrow> player \<Rightarrow> real \<Rightarrow> real \<Rightarrow> canvasOp list" where
  "drawAvatar s p x y =
     (case map_of (avatars s) (avatar p) of
        None \<Rightarrow> []
      | Some avatarData \<Rightarrow>
          let dir = facing p;
              frameIndex = (case animationFrame p of None \<Rightarrow> 0 | Some i \<Rightarrow> i)
          in (case map_of (avatarImages s) (imageKey (avatar p) dir frameIndex) of
                None \<Rightarrow> []
              | Some avatarImage \<Rightarrow>
                  let aspectRatio = img_width avatarImage / img_height avatarImage;
                      width = avatarSize s;
                      height = avatarSize s / aspectRatio;
                      drawX = x - width / 2;
                      drawY = y - height / 2
                  in if dir = ''west''
                     then [Save, Scale (- 1) 1,
                           DrawImage avatarImage (- drawX - width) drawY width height,
                           Restore]
                     else [DrawImage avatarImage drawX drawY width height]))"

definition drawPlayerLabel :: "client \<Rightarrow> string \<Rightarrow> real \<Rightarrow> real \<Rightarrow> canvasOp list" where
  "drawPlayerLabel s name x y =
     (let labelY = y - avatarSize s / 2 - 5
      in [SetStyle ''fillStyle'' ''white'', SetStyle ''strokeStyle'' ''black'',
          SetNum ''lineWidth'' 2, SetStyle ''font'' ''12px Arial'',
          SetStyle ''textAlign'' ''center'',
          StrokeText name x labelY, FillText name x labelY])"

definition drawPlayer :: "client \<Rightarrow> player \<Rightarrow> canvasOp list" where
  "drawPlayer s p =
     (let screenPos = worldToScreen s (pos_x p, pos_y p)
      in if fst screenPos < - avatarSize s \<or> fst screenPos > canvas_width s + avatarSize s \<or>
            snd screenPos < - avatarSize s \<or> snd screenPos > canvas_height s + avatarSize s
         then []
         else (if Some (player_id p) = myPlayerId s
               then drawPlayerGlow s (fst screenPos) (snd screenPos) else []) @
              drawAvatar s p (fst screenPos) (snd screenPos) @
              drawPlayerLabel s (username p) (fst screenPos) (snd screenPos))"

definition drawPlayers :: "client \<Rightarrow> canvasOp list" where
  "drawPlayers s = concat (map (\<lambda>(playerId, a). drawPlayer s (heap s a)) (players s))"

definition drawConnectionStatus :: "client \<Rightarrow> canvasOp list" where
  "drawConnectionStatus s =
     [SetStyle ''fillStyle'' (if connected s then ''#27ae60'' else ''#e74c3c''),
      FillRect 10 10 10 10,
      SetStyle ''fillStyle'' ''white'', SetStyle ''font'' ''12px Arial'',
      SetStyle ''textAlign'' ''left'',
      FillText (if connected s then ''Connected'' else ''Disconnected'') 25 20]"

definition drawMinimap :: "client \<Rightarrow> canvasOp list" where
  "drawMinimap s =
     (case worldImage s of
        None \<Rightarrow> []
      | Some img \<Rightarrow>
          if myPlayer s = None then []
          else
            [ClearRect 0 0 (minimap_width s) (minimap_height s),
             DrawImage img 0 0 (worldWidth s * minimapScale s) (worldHeight s * minimapScale s)] @
            concat (map (\<lambda>(playerId, a).
                      [SetStyle ''fillStyle''
                         (if Some playerId = myPlayerId s then ''#00ff00'' else ''#ff0000''),
                       BeginPath,
                       Arc (pos_x (heap s a) * minimapScale s) (pos_y (heap s a) * minimapScale s)
                         3 0 (2 * pi),
                       Fill])
                    (players s)) @
            [SetStyle ''strokeStyle'' ''#ffff00'', SetNum ''lineWidth'' 2,
             StrokeRect (viewportX s * minimapScale s) (viewportY s * minimapScale s)
               (canvas_width s * minimapScale s) (canvas_height s * minimapScale s)])"

definition render :: "client \<Rightarrow> client" where
  "render s =
     s\<lparr>rendered := rendered s @
          [ClearRect 0 0 (canvas_width s) (canvas_height s) #
           drawWorldMap s @ drawPlayers s @ drawConnectionStatus s],
       minimapLog := minimapLog s @ drawMinimap s\<rparr>"

text \<open>One animation frame: the callback given to \<^verbatim>\<open>requestAnimationFrame\<close>.\<close>

definition renderTick :: "client \<Rightarrow> client" where
  "renderTick s = (if needsRedraw s then (render s)\<lparr>needsRedraw := False\<rparr> else s)"

subsection \<open>The client after its constructor\<close>

definition nullPlayer :: player where
  "nullPlayer = \<lparr>player_id = [], username = [], pos_x = 0, pos_y = 0, facing = [],
                 avatar = [], animationFrame = None\<rparr>"

definition newClient :: "real \<Rightarrow> real \<Rightarrow> client" where
  "newClient innerWidth innerHeight =
     \<lparr>canvas_width = innerWidth, canvas_height = innerHeight,
      minimap_width = 200, minimap_height = 200,
      worldImage = Some \<lparr>image_src = ''world.jpg'', img_width = 0, img_height = 0\<rparr>,
      worldWidth = 2048, worldHeight = 2048,
      connected = False, sent = [],
      myPlayerId = None, myPlayer = None,
      heap = (\<lambda>_. nullPlayer), nextAddr = 0,
      players = [], avatars = [], avatarImages = [], loadRequests = [],
      viewportX = 0, viewportY = 0, avatarSize = 32, needsRedraw = True,
      pressedKeys = {}, isMoving = False, isRunning = False, minimapScale = 1 / 10,
      rendered = [], minimapLog = []\<rparr>"

text \<open>
  Every address the client holds has been allocated. It holds of \<open>newClient\<close> and
  the handlers keep it (\<open>heap_ok_newClient\<close>, \<open>heap_ok_handleMessage\<close> below).
\<close>

definition heap_ok :: "client \<Rightarrow> bool" where
  "heap_ok s \<longleftrightarrow>
     (\<forall>a \<in> snd ` set (players s). a < nextAddr s) \<and>
     (\<forall>a. myPlayer s = Some a \<longrightarrow> a < nextAddr s)"

text \<open>The inbound messages that change the store of players.\<close>

fun storeMutation :: "message \<Rightarrow> bool" where
  "storeMutation (JoinGame success playerId ps avs) = success"
| "storeMutation (PlayersMoved ps) = True"
| "storeMutation (PlayerJoined p a) = True"
| "storeMutation (PlayerLeft playerId) = True"
| "storeMutation (Unknown action) = False"

subsection \<open>A session used to run the handlers on concrete input\<close>

definition snap :: "string \<Rightarrow> real \<Rightarrow> real \<Rightarrow> string \<Rightarrow> player" where
  "snap k x y f = \<lparr>player_id = k, username = ''Tim'', pos_x = x, pos_y = y, facing = f,
                   avatar = ''fox'', animationFrame = None\<rparr>"

text \<open>A descriptor with frames for three facings, and one that has west frames too.\<close>

definition fox :: avatarData where
  "fox = \<lparr>avatar_name = ''fox'',
          avatar_frames = [(''north'', [''n0.png'']), (''south'', [''s0.png'']),
                           (''east'', [''e0.png''])]\<rparr>"

definition foxWest :: avatarData where
  "foxWest = \<lparr>avatar_name = ''fox'',
              avatar_frames = [(''north'', [''n0.png'']), (''south'', [''s0.png'']),
                               (''east'', [''e0.png'']), (''west'', [''w0.png''])]\<rparr>"

definition eastImage :: image where
  "eastImage = \<lparr>image_src = ''e0.png'', img_width = 64, img_height = 64\<rparr>"

definition westImage :: image where
  "westImage = \<lparr>image_src = ''w0.png'', img_width = 64, img_height = 64\<rparr>"

text \<open>
  A window of 800 by 600, the socket open, and the answer to the join: the client is
  player \<open>p1\<close> at \<open>(x, y)\<close>.
\<close>

definition joined :: "real \<Rightarrow> real \<Rightarrow> client" where
  "joined x y =
     handleMessage (JoinGame True ''p1'' [(''p1'', snap ''p1'' x y ''south'')] [(''fox'', fox)])
       (onOpen (newClient 800 600))"

text \<open>After one frame, the server moves \<open>p1\<close> from \<open>(1000, 1000)\<close> to \<open>(1100, 1000)\<close>.\<close>

definition movedAfterJoin :: client where
  "movedAfterJoin =
     handleMessage (PlayersMoved [(''p1'', snap ''p1'' 1100 1000 ''east'')])
       (renderTick (joined 1000 1000))"

section \<open>Lemmas\<close>

lemmas scenario_defs =
  joined_def movedAfterJoin_def snap_def fox_def onOpen_def joinGame_def newClient_def
  handleJoinGame_def handlePlayersMoved_def handlePlayerJoined_def handlePlayerLeft_def
  setPlayers_def storeAvatars_def loadAvatarImages_def updateViewport_def renderTick_def
  render_def getPlayer_def imageLoaded_def Let_def

lemma string_of_nat_0: "string_of_nat 0 = ''0''"
  by code_simp

subsection \<open>Rounding to a double, on known values\<close>

lemmas fl_eval = fl_def expo_def round_half_even_def pow2_def Let_def

lemma fl_tenth: "fl (1 / 10) = 3602879701896397 / 36028797018963968"
  unfolding fl_eval by (simp add: bit_length.simps)

lemma fl_fifth: "fl (2 / 10) = 3602879701896397 / 18014398509481984"
  unfolding fl_eval by (simp add: bit_length.simps)

lemma fl_1000_1: "fl (10001 / 10) = 8796972631510221 / 8796093022208"
  unfolding fl_eval by (simp add: bit_length.simps)

text \<open>\<^verbatim>\<open>0.1 + 0.2\<close> is \<^verbatim>\<open>0.30000000000000004\<close>, and ties go to the even significand.\<close>

lemma fl_tenth_plus_fifth:
  "fl (fl (1 / 10) + fl (2 / 10)) = 1351079888211149 / 4503599627370496"
  unfolding fl_tenth fl_fifth unfolding fl_eval by (simp add: bit_length.simps)

lemma fl_ties:
  "fl 9007199254740993 = 9007199254740992" "fl 9007199254740995 = 9007199254740996"
  unfolding fl_eval by (simp_all add: bit_length.simps)

lemma fl_integers: "fl 0 = 0" "fl 300 = 300" "fl 500 = 500" "fl 1000 = 1000" "fl 1100 = 1100"
  "fl (- 600) = - 600"
  unfolding fl_eval by (simp_all add: bit_length.simps)

subsection \<open>Parsing allocates above every address in use\<close>

lemma parsePlayers_frame:
  "snd (parsePlayers ps s) =
     s\<lparr>heap := heap (snd (parsePlayers ps s)), nextAddr := nextAddr s + length ps\<rparr>"
proof (induction ps arbitrary: s)
  case Nil
  then show ?case by simp
next
  case (Cons kp ps)
  obtain k p where kp: "kp = (k, p)" by (cases kp)
  let ?s1 = "s\<lparr>heap := (heap s)(nextAddr s := p), nextAddr := Suc (nextAddr s)\<rparr>"
  have "snd (parsePlayers (kp # ps) s) = snd (parsePlayers ps ?s1)"
    by (simp add: kp Let_def)
  moreover have "snd (parsePlayers ps ?s1) =
      ?s1\<lparr>heap := heap (snd (parsePlayers ps ?s1)), nextAddr := nextAddr ?s1 + length ps\<rparr>"
    by (rule Cons.IH)
  ultimately show ?case by simp
qed

lemma parsePlayers_players: "players (snd (parsePlayers ps s)) = players s"
  by (subst parsePlayers_frame) simp
lemma parsePlayers_myPlayer: "myPlayer (snd (parsePlayers ps s)) = myPlayer s"
  by (subst parsePlayers_frame) simp
lemma parsePlayers_nextAddr: "nextAddr (snd (parsePlayers ps s)) = nextAddr s + length ps"
  by (subst parsePlayers_frame) simp
lemma parsePlayers_rendered: "rendered (snd (parsePlayers ps s)) = rendered s"
  by (subst parsePlayers_frame) simp
lemma parsePlayers_viewportX: "viewportX (snd (parsePlayers ps s)) = viewportX s"
  by (subst parsePlayers_frame) simp
lemma parsePlayers_viewportY: "viewportY (snd (parsePlayers ps s)) = viewportY s"
  by (subst parsePlayers_frame) simp

lemma parsePlayers_heap_old:
  "a < nextAddr s \<Longrightarrow> heap (snd (parsePlayers ps s)) a = heap s a"
  by (induction ps arbitrary: s) (auto simp: Let_def)

lemma parsePlayers_keys: "map fst (fst (parsePlayers ps s)) = map fst ps"
  by (induction ps arbitrary: s) (auto simp: Let_def)

lemma parsePlayers_addrs:
  "a \<in> snd ` set (fst (parsePlayers ps s)) \<Longrightarrow> nextAddr s \<le> a \<and> a < nextAddr s + length ps"
  by (induction ps arbitrary: s) (fastforce simp: Let_def)+

lemma parsePlayers_lookup:
  "distinct (map fst ps) \<Longrightarrow> map_of ps k = Some v \<Longrightarrow>
   \<exists>a. map_of (fst (parsePlayers ps s)) k = Some a \<and> heap (snd (parsePlayers ps s)) a = v"
proof (induction ps arbitrary: s)
  case Nil
  then show ?case by simp
next
  case (Cons kp ps)
  obtain k' p where kp: "kp = (k', p)" by (cases kp)
  let ?s1 = "s\<lparr>heap := (heap s)(nextAddr s := p), nextAddr := Suc (nextAddr s)\<rparr>"
  show ?case
  proof (cases "k = k'")
    case True
    with Cons.prems kp have "v = p" by simp
    moreover have "heap (snd (parsePlayers ps ?s1)) (nextAddr s) = heap ?s1 (nextAddr s)"
      by (rule parsePlayers_heap_old) simp
    ultimately show ?thesis using True kp by (simp add: Let_def)
  next
    case False
    with Cons.prems kp have "distinct (map fst ps)" "map_of ps k = Some v" by simp_all
    from Cons.IH [OF this, of ?s1] show ?thesis using False kp by (simp add: Let_def)
  qed
qed

lemma parsePlayers_lookup_None:
  "map_of ps k = None \<Longrightarrow> map_of (fst (parsePlayers ps s)) k = None"
  by (metis map_of_eq_None_iff parsePlayers_keys set_map)

subsection \<open>The loop of \<^verbatim>\<open>players.set\<close>\<close>

lemma map_of_setPlayers:
  "map_of (setPlayers refs al) k =
     (case map_of (rev refs) k of Some a \<Rightarrow> Some a | None \<Rightarrow> map_of al k)"
  unfolding setPlayers_def
proof (induction refs arbitrary: al)
  case Nil
  then show ?case by simp
next
  case (Cons r refs)
  obtain k' a where r: "r = (k', a)" by (cases r)
  show ?case
    by (simp add: r Cons.IH update_conv' map_add_def split: option.splits)
qed

lemma setPlayers_addrs:
  "snd ` set (setPlayers refs al) \<subseteq> snd ` set refs \<union> snd ` set al"
  unfolding setPlayers_def
proof (induction refs arbitrary: al)
  case Nil
  then show ?case by simp
next
  case (Cons r refs)
  obtain k' a where r: "r = (k', a)" by (cases r)
  have "snd ` set (AList.update k' a al) \<subseteq> insert a (snd ` set al)"
    by (induction al) auto
  with Cons.IH [of "AList.update k' a al"] show ?case
    by (auto simp: r)
qed

lemma map_of_rev_distinct: "distinct (map fst xs) \<Longrightarrow> map_of (rev xs) = map_of xs"
  by (induction xs) (auto simp: map_add_def fun_eq_iff dest: map_of_SomeD split: option.splits  intro: rev_image_eqI)

subsection \<open>What a bulk move leaves in the store\<close>

lemma getPlayer_handlePlayersMoved:
  assumes ok: "heap_ok s" and d: "distinct (map fst ps)"
  shows "getPlayer (handlePlayersMoved ps s) k =
           (case map_of ps k of Some v \<Rightarrow> Some v | None \<Rightarrow> getPlayer s k)"
proof -
  let ?r = "parsePlayers ps s"
  have dr: "distinct (map fst (fst ?r))" using d by (simp add: parsePlayers_keys)
  have look: "map_of (players (handlePlayersMoved ps s)) k =
      (case map_of (fst ?r) k of Some a \<Rightarrow> Some a | None \<Rightarrow> map_of (players s) k)"
    by (simp add: handlePlayersMoved_def Let_def map_of_setPlayers map_of_rev_distinct [OF dr]
        parsePlayers_players)
  have hp: "heap (handlePlayersMoved ps s) = heap (snd ?r)"
    by (simp add: handlePlayersMoved_def Let_def)
  show ?thesis
  proof (cases "map_of ps k")
    case None
    then have n: "map_of (fst ?r) k = None" by (rule parsePlayers_lookup_None)
    show ?thesis
    proof (cases "map_of (players s) k")
      case None
      with n \<open>map_of ps k = None\<close> show ?thesis by (simp add: getPlayer_def look)
    next
      case (Some a)
      then have "a \<in> snd ` set (players s)" by (force dest: map_of_SomeD)
      with ok have "a < nextAddr s" by (auto simp: heap_ok_def)
      then have "heap (snd ?r) a = heap s a" by (rule parsePlayers_heap_old)
      with n Some \<open>map_of ps k = None\<close> show ?thesis by (simp add: getPlayer_def look hp)
    qed
  next
    case (Some v)
    from parsePlayers_lookup [OF d Some, of s]
    obtain a where "map_of (fst ?r) k = Some a" "heap (snd ?r) a = v" by blast
    with Some show ?thesis by (simp add: getPlayer_def look hp)
  qed
qed

lemma heap_ok_handlePlayersMoved: "heap_ok s \<Longrightarrow> heap_ok (handlePlayersMoved ps s)"
proof -
  assume ok: "heap_ok s"
  let ?r = "parsePlayers ps s"
  have "a < nextAddr s + length ps" if "a \<in> snd ` set (setPlayers (fst ?r) (players s))" for a
  proof -
    from that setPlayers_addrs have "a \<in> snd ` set (fst ?r) \<or> a \<in> snd ` set (players s)" by blast
    then show ?thesis
    proof
      assume "a \<in> snd ` set (fst ?r)"
      then show ?thesis using parsePlayers_addrs by blast
    next
      assume "a \<in> snd ` set (players s)"
      with ok show ?thesis by (fastforce simp: heap_ok_def)
    qed
  qed
  moreover have "a < nextAddr s + length ps" if "myPlayer s = Some a" for a
    using ok that by (fastforce simp: heap_ok_def)
  ultimately show ?thesis
    by (simp add: heap_ok_def handlePlayersMoved_def Let_def parsePlayers_players
        parsePlayers_nextAddr parsePlayers_myPlayer)
qed

subsection \<open>Fields a handler does not touch\<close>

lemma storeAvatars_frame:
  "storeAvatars avs s =
     s\<lparr>avatars := avatars (storeAvatars avs s),
       loadRequests := loadRequests (storeAvatars avs s)\<rparr>"
  unfolding storeAvatars_def
proof (induction avs arbitrary: s)
  case Nil
  then show ?case by simp
next
  case (Cons na avs)
  obtain n a where na: "na = (n, a)" by (cases na)
  let ?t = "loadAvatarImages n a (s\<lparr>avatars := AList.update n a (avatars s)\<rparr>)"
  let ?F = "fold (\<lambda>(avatarName, a) t.
                    loadAvatarImages avatarName a
                      (t\<lparr>avatars := AList.update avatarName a (avatars t)\<rparr>)) avs"
  have "?F ?t = ?t\<lparr>avatars := avatars (?F ?t), loadRequests := loadRequests (?F ?t)\<rparr>"
    by (rule Cons.IH)
  then show ?case
    by (simp add: na loadAvatarImages_def)
qed

lemma storeAvatars_rendered: "rendered (storeAvatars avs s) = rendered s"
  by (subst storeAvatars_frame) simp
lemma storeAvatars_players: "players (storeAvatars avs s) = players s"
  by (subst storeAvatars_frame) simp
lemma storeAvatars_myPlayer: "myPlayer (storeAvatars avs s) = myPlayer s"
  by (subst storeAvatars_frame) simp
lemma storeAvatars_nextAddr: "nextAddr (storeAvatars avs s) = nextAddr s"
  by (subst storeAvatars_frame) simp

lemma updateViewport_frame:
  "updateViewport s = s\<lparr>viewportX := viewportX (updateViewport s),
                        viewportY := viewportY (updateViewport s)\<rparr>"
  by (simp add: updateViewport_def Let_def split: option.splits)

lemma updateViewport_rendered: "rendered (updateViewport s) = rendered s"
  by (subst updateViewport_frame) simp
lemma updateViewport_players: "players (updateViewport s) = players s"
  by (subst updateViewport_frame) simp
lemma updateViewport_myPlayer: "myPlayer (updateViewport s) = myPlayer s"
  by (subst updateViewport_frame) simp
lemma updateViewport_nextAddr: "nextAddr (updateViewport s) = nextAddr s"
  by (subst updateViewport_frame) simp
lemma updateViewport_sent: "sent (updateViewport s) = sent s"
  by (subst updateViewport_frame) simp

lemma rendered_handleMessage: "rendered (handleMessage m s) = rendered s"
  by (cases m)
    (simp_all add: handleJoinGame_def handlePlayersMoved_def handlePlayerJoined_def
      handlePlayerLeft_def Let_def updateViewport_rendered storeAvatars_rendered
      parsePlayers_rendered loadAvatarImages_def)

lemma needsRedraw_handleMessage: "storeMutation m \<Longrightarrow> needsRedraw (handleMessage m s)"
  by (cases m)
    (simp_all add: handleJoinGame_def handlePlayersMoved_def handlePlayerJoined_def
      handlePlayerLeft_def Let_def)

lemma rendered_fold_handleMessage: "rendered (fold handleMessage ms s) = rendered s"
  by (induction ms arbitrary: s) (simp_all add: rendered_handleMessage)

lemma needsRedraw_fold_handleMessage:
  "ms \<noteq> [] \<Longrightarrow> \<forall>m \<in> set ms. storeMutation m \<Longrightarrow> needsRedraw (fold handleMessage ms s)"
proof (induction ms arbitrary: s)
  case Nil
  then show ?case by simp
next
  case (Cons m ms)
  show ?case
  proof (cases "ms = []")
    case True
    with Cons.prems show ?thesis by (simp add: needsRedraw_handleMessage)
  next
    case False
    with Cons.prems Cons.IH [OF False, of "handleMessage m s"] show ?thesis by simp
  qed
qed

subsection \<open>The invariant of the heap\<close>

lemma heap_ok_newClient: "heap_ok (newClient w h)"
  by (simp add: heap_ok_def newClient_def)

lemma heap_ok_handleJoinGame:
  assumes "heap_ok s"
  shows "heap_ok (handleJoinGame success playerId ps avs s)"
proof (cases success)
  case False
  with assms show ?thesis by (simp add: handleJoinGame_def)
next
  case True
  let ?r = "parsePlayers ps s"
  have p: "a < nextAddr s + length ps" if "a \<in> snd ` set (setPlayers (fst ?r) [])" for a
  proof -
    from that setPlayers_addrs [of "fst ?r" "[]"] have "a \<in> snd ` set (fst ?r)" by auto
    then show ?thesis using parsePlayers_addrs by blast
  qed
  have m: "a < nextAddr s + length ps" if "map_of (fst ?r) playerId = Some a" for a
  proof -
    from that have "a \<in> snd ` set (fst ?r)" by (force dest: map_of_SomeD)
    then show ?thesis using parsePlayers_addrs by blast
  qed
  from True p m show ?thesis
    by (simp add: heap_ok_def handleJoinGame_def Let_def updateViewport_players
        updateViewport_myPlayer updateViewport_nextAddr storeAvatars_players
        storeAvatars_myPlayer storeAvatars_nextAddr parsePlayers_nextAddr)
qed

lemma handlePlayerJoined_as_moved:
  "handlePlayerJoined p a s =
     (let s1 = handlePlayersMoved [(player_id p, p)] s;
          s2 = s1\<lparr>avatars := AList.update (avatar_name a) a (avatars s1)\<rparr>
      in (loadAvatarImages (avatar_name a) a s2)\<lparr>needsRedraw := True\<rparr>)"
  by (simp add: handlePlayerJoined_def handlePlayersMoved_def Let_def loadAvatarImages_def)

lemma heap_ok_handlePlayerJoined:
  assumes "heap_ok s"
  shows "heap_ok (handlePlayerJoined p a s)"
proof -
  from assms have "heap_ok (handlePlayersMoved [(player_id p, p)] s)"
    by (rule heap_ok_handlePlayersMoved)
  then show ?thesis
    by (simp add: handlePlayerJoined_as_moved Let_def loadAvatarImages_def heap_ok_def)
qed

lemma heap_ok_handlePlayerLeft: "heap_ok s \<Longrightarrow> heap_ok (handlePlayerLeft k s)"
  by (auto simp: heap_ok_def handlePlayerLeft_def AList.delete_eq)

lemma heap_ok_handleMessage: "heap_ok s \<Longrightarrow> heap_ok (handleMessage m s)"
  by (cases m)
    (simp_all add: heap_ok_handleJoinGame heap_ok_handlePlayersMoved
      heap_ok_handlePlayerJoined heap_ok_handlePlayerLeft)

section \<open>The claims\<close>

subsection \<open>C1: a bulk move that names the tracked player\<close>

lemma handlePlayersMoved_keeps_camera:
  "viewportX (handlePlayersMoved ps s) = viewportX s \<and>
   viewportY (handlePlayersMoved ps s) = viewportY s \<and>
   myPlayer (handlePlayersMoved ps s) = myPlayer s"
  by (simp add: handlePlayersMoved_def Let_def parsePlayers_viewportX parsePlayers_viewportY
      parsePlayers_myPlayer)

text \<open>
  Claim C1 says that, after a join, a bulk move naming the tracked player updates its
  stored position and triggers one redraw and one viewport recompute. Run on the code:
  the join at \<open>(1000, 1000)\<close> puts the viewport at \<open>(600, 700)\<close>; the bulk move to
  \<open>(1100, 1000)\<close> updates the entry of the store and sets the dirty flag, and the next
  frame draws once. But \<^verbatim>\<open>handlePlayersMoved\<close> does not call \<^verbatim>\<open>updateViewport\<close>, and
  \<^verbatim>\<open>this.myPlayer\<close> still is the object of the join, at \<open>x = 1000\<close>: the viewport stays at
  \<open>600\<close>, also when \<^verbatim>\<open>updateViewport\<close> runs later, where a recompute from the new
  position gives \<open>700\<close>.
\<close>

theorem players_moved_no_viewport_recompute:
  "viewportX (joined 1000 1000) = 600 \<and>
   viewportY (joined 1000 1000) = 700 \<and>
   map_option pos_x (getPlayer movedAfterJoin ''p1'') = Some 1100 \<and>
   needsRedraw movedAfterJoin \<and>
   length (rendered (renderTick movedAfterJoin)) = Suc (length (rendered movedAfterJoin)) \<and>
   viewportX movedAfterJoin = 600 \<and>
   map_option (\<lambda>a. pos_x (heap movedAfterJoin a)) (myPlayer movedAfterJoin) = Some 1000 \<and>
   viewportX (updateViewport movedAfterJoin) = 600 \<and>
   viewportX (joined 1100 1000) = 700"
  by (simp add: scenario_defs)

subsection \<open>C2: the viewport computation\<close>

text \<open>
  Claim C2: with a tracked player, \<^verbatim>\<open>updateViewport\<close> sets each axis of the viewport to
  the player's position minus half the output size, clamped to
  \<open>[0, worldDim - outputDim]\<close>, and to \<open>0\<close> when the world is smaller than the output.
  For a world of 2048 by 2048 and an output of 800 by 600 the viewport is \<open>(0, 0)\<close>
  for a player at \<open>(0, 0)\<close>, \<open>(1248, 1448)\<close> at \<open>(2048, 2048)\<close> and \<open>(624, 724)\<close> at
  \<open>(1024, 1024)\<close>.
\<close>

theorem updateViewport_clamp:
  assumes "myPlayer s = Some a"
  shows
    "viewportX (updateViewport s) =
       (let t = pos_x (heap s a) - canvas_width s / 2; hi = worldWidth s - canvas_width s
        in if worldWidth s < canvas_width s then 0
           else if t < 0 then 0 else if hi < t then hi else t) \<and>
     viewportY (updateViewport s) =
       (let t = pos_y (heap s a) - canvas_height s / 2; hi = worldHeight s - canvas_height s
        in if worldHeight s < canvas_height s then 0
           else if t < 0 then 0 else if hi < t then hi else t) \<and>
     (worldWidth s = 2048 \<and> worldHeight s = 2048 \<and>
      canvas_width s = 800 \<and> canvas_height s = 600 \<longrightarrow>
        (pos_x (heap s a) = 0 \<and> pos_y (heap s a) = 0 \<longrightarrow>
           viewportX (updateViewport s) = 0 \<and> viewportY (updateViewport s) = 0) \<and>
        (pos_x (heap s a) = 2048 \<and> pos_y (heap s a) = 2048 \<longrightarrow>
           viewportX (updateViewport s) = 1248 \<and> viewportY (updateViewport s) = 1448) \<and>
        (pos_x (heap s a) = 1024 \<and> pos_y (heap s a) = 1024 \<longrightarrow>
           viewportX (updateViewport s) = 624 \<and> viewportY (updateViewport s) = 724))"
  using assms by (auto simp: updateViewport_def Let_def max_def min_def)

theorem updateViewport_clamp_witness:
  "myPlayer (joined 0 0) = Some 0 \<and>
   viewportX (updateViewport (joined 0 0)) = 0 \<and>
   viewportY (updateViewport (joined 0 0)) = 0 \<and>
   myPlayer (joined 2048 2048) = Some 0 \<and>
   viewportX (updateViewport (joined 2048 2048)) = 1248 \<and>
   viewportY (updateViewport (joined 2048 2048)) = 1448 \<and>
   myPlayer (joined 1024 1024) = Some 0 \<and>
   viewportX (updateViewport (joined 1024 1024)) = 624 \<and>
   viewportY (updateViewport (joined 1024 1024)) = 724"
proof -
  have a: "myPlayer (joined 0 0) = Some 0"
    and b: "myPlayer (joined 2048 2048) = Some 0"
    and c: "myPlayer (joined 1024 1024) = Some 0"
    by (simp_all add: scenario_defs)
  have d: "worldWidth (joined x y) = 2048 \<and> worldHeight (joined x y) = 2048 \<and>
      canvas_width (joined x y) = 800 \<and> canvas_height (joined x y) = 600 \<and>
      pos_x (heap (joined x y) 0) = x \<and> pos_y (heap (joined x y) 0) = y" for x y
    by (simp add: scenario_defs)
  from updateViewport_clamp [OF a] updateViewport_clamp [OF b] updateViewport_clamp [OF c]
    a b c d [of 0 0] d [of 2048 2048] d [of 1024 1024]
  show ?thesis by simp
qed

subsection \<open>C3: the held keys reduce to one intent\<close>

text \<open>
  Claim C3: the held arrow keys reduce to the first held direction in the order up,
  down, left, right, and to Stop when none is held; \<^verbatim>\<open>updateMovement\<close> hands exactly
  that one message to the socket (none when the socket is not open). So
  \<open>{up, left}\<close> gives up, \<open>{left, down}\<close> gives down and the empty set gives Stop.
\<close>

theorem updateMovement_priority:
  "(case getMovementDirections s of [] \<Rightarrow> StopMsg | d # _ \<Rightarrow> MoveMsg d) =
     (if ''ArrowUp'' \<in> pressedKeys s then MoveMsg Up
      else if ''ArrowDown'' \<in> pressedKeys s then MoveMsg Down
      else if ''ArrowLeft'' \<in> pressedKeys s then MoveMsg Left
      else if ''ArrowRight'' \<in> pressedKeys s then MoveMsg Right
      else StopMsg) \<and>
   sent (updateMovement s) =
     sent s @
     (if connected s
      then [case getMovementDirections s of [] \<Rightarrow> StopMsg | d # _ \<Rightarrow> MoveMsg d]
      else []) \<and>
   (pressedKeys s = {''ArrowUp'', ''ArrowLeft''} \<longrightarrow>
      (case getMovementDirections s of [] \<Rightarrow> StopMsg | d # _ \<Rightarrow> MoveMsg d) = MoveMsg Up) \<and>
   (pressedKeys s = {''ArrowLeft'', ''ArrowDown''} \<longrightarrow>
      (case getMovementDirections s of [] \<Rightarrow> StopMsg | d # _ \<Rightarrow> MoveMsg d) = MoveMsg Down) \<and>
   (pressedKeys s = {} \<longrightarrow>
      (case getMovementDirections s of [] \<Rightarrow> StopMsg | d # _ \<Rightarrow> MoveMsg d) = StopMsg)"
  by (simp add: updateMovement_def getMovementDirections_def updateViewport_sent
      updatePlayerFacing_def sendMoveCommand_def sendStopCommand_def split: option.splits)

theorem updateMovement_priority_witness:
  "sent (updateMovement ((joined 100 100)\<lparr>pressedKeys := {''ArrowUp'', ''ArrowLeft''}\<rparr>)) =
     [JoinGameMsg ''Tim'', MoveMsg Up] \<and>
   sent (updateMovement ((joined 100 100)\<lparr>pressedKeys := {''ArrowLeft'', ''ArrowDown''}\<rparr>)) =
     [JoinGameMsg ''Tim'', MoveMsg Down] \<and>
   sent (updateMovement ((joined 100 100)\<lparr>pressedKeys := {}\<rparr>)) =
     [JoinGameMsg ''Tim'', StopMsg]"
proof -
  have c: "connected ((joined 100 100)\<lparr>pressedKeys := K\<rparr>) \<and>
      sent ((joined 100 100)\<lparr>pressedKeys := K\<rparr>) = [JoinGameMsg ''Tim'']" for K
    by (simp add: scenario_defs)
  from updateMovement_priority
      [of "(joined 100 100)\<lparr>pressedKeys := {''ArrowUp'', ''ArrowLeft''}\<rparr>"]
    updateMovement_priority
      [of "(joined 100 100)\<lparr>pressedKeys := {''ArrowLeft'', ''ArrowDown''}\<rparr>"]
    updateMovement_priority [of "(joined 100 100)\<lparr>pressedKeys := {}\<rparr>"]
    c [of "{''ArrowUp'', ''ArrowLeft''}"] c [of "{''ArrowLeft'', ''ArrowDown''}"] c [of "{}"]
  show ?thesis by simp
qed

subsection \<open>C4: many mutations, one redraw\<close>

text \<open>
  Claim C4 ends with: an empty bulk move does not mark the dirty flag. On the code it
  does: \<^verbatim>\<open>handlePlayersMoved\<close> sets \<^verbatim>\<open>needsRedraw\<close> after its loop, whatever the map.
\<close>

theorem empty_upsertMany_marks_dirty_counterexample:
  "\<not> needsRedraw (renderTick (newClient 800 600)) \<and>
   needsRedraw (handlePlayersMoved [] (renderTick (newClient 800 600)))"
  by (simp add: renderTick_def render_def newClient_def handlePlayersMoved_def Let_def)

text \<open>
  Claim C4, amended: any non-empty sequence of store mutations (a successful join, a
  bulk move, a player joining, a player leaving) handled after a frame draws nothing by
  itself, the next frame draws exactly once and clears the dirty flag, and the frame
  after that draws nothing. A frame draws only when the flag is set, and clears it
  after the draw. A bulk move sets the flag whatever its map holds, the empty map too.
\<close>

theorem dirty_flag_batching:
  "(ms \<noteq> [] \<and> (\<forall>m \<in> set ms. storeMutation m) \<longrightarrow>
      rendered (fold handleMessage ms s) = rendered s \<and>
      length (rendered (renderTick (fold handleMessage ms s))) = Suc (length (rendered s)) \<and>
      \<not> needsRedraw (renderTick (fold handleMessage ms s)) \<and>
      renderTick (renderTick (fold handleMessage ms s)) = renderTick (fold handleMessage ms s)) \<and>
   (\<not> needsRedraw t \<longrightarrow> renderTick t = t) \<and>
   (needsRedraw t \<longrightarrow>
      length (rendered (renderTick t)) = Suc (length (rendered t)) \<and>
      \<not> needsRedraw (renderTick t)) \<and>
   needsRedraw (handlePlayersMoved ps t)"
proof -
  have tick: "length (rendered (renderTick u)) = Suc (length (rendered u)) \<and>
      \<not> needsRedraw (renderTick u) \<and> renderTick (renderTick u) = renderTick u"
    if "needsRedraw u" for u
    using that by (simp add: renderTick_def render_def)
  have "needsRedraw (fold handleMessage ms s)"
    if "ms \<noteq> []" "\<forall>m \<in> set ms. storeMutation m"
    using that by (rule needsRedraw_fold_handleMessage)
  from tick [OF this] have 1: "ms \<noteq> [] \<and> (\<forall>m \<in> set ms. storeMutation m) \<longrightarrow>
      rendered (fold handleMessage ms s) = rendered s \<and>
      length (rendered (renderTick (fold handleMessage ms s))) = Suc (length (rendered s)) \<and>
      \<not> needsRedraw (renderTick (fold handleMessage ms s)) \<and>
      renderTick (renderTick (fold handleMessage ms s)) = renderTick (fold handleMessage ms s)"
    by (simp add: rendered_fold_handleMessage)
  have 2: "\<not> needsRedraw t \<longrightarrow> renderTick t = t"
    by (simp add: renderTick_def)
  have 3: "needsRedraw t \<longrightarrow>
      length (rendered (renderTick t)) = Suc (length (rendered t)) \<and>
      \<not> needsRedraw (renderTick t)"
    using tick [of t] by simp
  have 4: "needsRedraw (handlePlayersMoved ps t)"
    by (simp add: handlePlayersMoved_def Let_def)
  from 1 2 3 4 show ?thesis by blast
qed

theorem dirty_flag_batching_witness:
  "length (rendered (renderTick (joined 100 100))) = 1 \<and>
   length (rendered
     (fold handleMessage
        [PlayersMoved [(''p1'', snap ''p1'' 110 100 ''east'')],
         PlayerJoined (snap ''p2'' 5 5 ''south'') fox,
         PlayerLeft ''p2'']
        (renderTick (joined 100 100)))) = 1 \<and>
   length (rendered (renderTick
     (fold handleMessage
        [PlayersMoved [(''p1'', snap ''p1'' 110 100 ''east'')],
         PlayerJoined (snap ''p2'' 5 5 ''south'') fox,
         PlayerLeft ''p2'']
        (renderTick (joined 100 100))))) = 2 \<and>
   length (rendered (renderTick (renderTick
     (fold handleMessage
        [PlayersMoved [(''p1'', snap ''p1'' 110 100 ''east'')],
         PlayerJoined (snap ''p2'' 5 5 ''south'') fox,
         PlayerLeft ''p2'']
        (renderTick (joined 100 100)))))) = 2"
proof -
  have l: "length (rendered (renderTick (joined 100 100))) = 1"
    by (simp add: scenario_defs)
  from dirty_flag_batching
      [of "[PlayersMoved [(''p1'', snap ''p1'' 110 100 ''east'')],
            PlayerJoined (snap ''p2'' 5 5 ''south'') fox, PlayerLeft ''p2'']"
          "renderTick (joined 100 100)" "joined 100 100" "[]"] l
  show ?thesis by simp
qed

subsection \<open>C5: a bulk move replaces the named players and no other\<close>

text \<open>
  Claim C5: after a bulk move, every id of the map is bound to the snapshot that came
  with it, whole, and every other id is bound as before; so after a bulk move of
  \<open>A\<close> and \<open>B\<close> and then one of \<open>A\<close> alone, \<open>A\<close> holds its second snapshot and \<open>B\<close> its
  first. The keys of a JavaScript object are distinct.
\<close>

theorem upsertMany_completeness:
  assumes "heap_ok s" and "distinct (map fst ps)"
  shows
    "(\<forall>(k, v) \<in> set ps. getPlayer (handlePlayersMoved ps s) k = Some v) \<and>
     (\<forall>k. k \<notin> fst ` set ps \<longrightarrow> getPlayer (handlePlayersMoved ps s) k = getPlayer s k) \<and>
     (A \<noteq> B \<longrightarrow>
        getPlayer (handlePlayersMoved [(A, snapA2)]
                     (handlePlayersMoved [(A, snapA), (B, snapB)] s)) A = Some snapA2 \<and>
        getPlayer (handlePlayersMoved [(A, snapA2)]
                     (handlePlayersMoved [(A, snapA), (B, snapB)] s)) B = Some snapB)"
proof -
  have 1: "getPlayer (handlePlayersMoved ps s) k = Some v" if "(k, v) \<in> set ps" for k v
  proof -
    from assms(2) that have "map_of ps k = Some v" by (rule map_of_is_SomeI)
    then show ?thesis by (simp add: getPlayer_handlePlayersMoved [OF assms])
  qed
  have 2: "getPlayer (handlePlayersMoved ps s) k = getPlayer s k" if "k \<notin> fst ` set ps" for k
  proof -
    from that have "map_of ps k = None" by (simp add: map_of_eq_None_iff)
    then show ?thesis by (simp add: getPlayer_handlePlayersMoved [OF assms])
  qed
  have 3: "getPlayer (handlePlayersMoved [(A, snapA2)]
                     (handlePlayersMoved [(A, snapA), (B, snapB)] s)) A = Some snapA2 \<and>
        getPlayer (handlePlayersMoved [(A, snapA2)]
                     (handlePlayersMoved [(A, snapA), (B, snapB)] s)) B = Some snapB"
    if "A \<noteq> B"
  proof -
    let ?s1 = "handlePlayersMoved [(A, snapA), (B, snapB)] s"
    have ok1: "heap_ok ?s1" using assms(1) by (rule heap_ok_handlePlayersMoved)
    have d1: "distinct (map fst [(A, snapA), (B, snapB)])" using that by simp
    have d2: "distinct (map fst [(A, snapA2)])" by simp
    show ?thesis
      using that
      by (simp add: getPlayer_handlePlayersMoved [OF ok1 d2]
          getPlayer_handlePlayersMoved [OF assms(1) d1])
  qed
  from 1 2 3 show ?thesis by blast
qed

theorem upsertMany_completeness_witness:
  "heap_ok (joined 100 100) \<and>
   distinct (map fst [(''A'', snap ''A'' 1 2 ''north''), (''B'', snap ''B'' 3 4 ''south'')]) \<and>
   getPlayer (handlePlayersMoved
                [(''A'', snap ''A'' 1 2 ''north''), (''B'', snap ''B'' 3 4 ''south'')]
                (joined 100 100)) ''A'' = Some (snap ''A'' 1 2 ''north'') \<and>
   getPlayer (handlePlayersMoved
                [(''A'', snap ''A'' 1 2 ''north''), (''B'', snap ''B'' 3 4 ''south'')]
                (joined 100 100)) ''p1'' = Some (snap ''p1'' 100 100 ''south'') \<and>
   getPlayer (handlePlayersMoved [(''A'', snap ''A'' 9 9 ''west'')]
                (handlePlayersMoved
                   [(''A'', snap ''A'' 1 2 ''north''), (''B'', snap ''B'' 3 4 ''south'')]
                   (joined 100 100))) ''A'' = Some (snap ''A'' 9 9 ''west'') \<and>
   getPlayer (handlePlayersMoved [(''A'', snap ''A'' 9 9 ''west'')]
                (handlePlayersMoved
                   [(''A'', snap ''A'' 1 2 ''north''), (''B'', snap ''B'' 3 4 ''south'')]
                   (joined 100 100))) ''B'' = Some (snap ''B'' 3 4 ''south'')"
proof -
  have ok: "heap_ok (joined 100 100)"
    unfolding joined_def onOpen_def joinGame_def
    by (intro heap_ok_handleMessage) (simp add: heap_ok_def newClient_def)
  have d: "distinct (map fst [(''A'', snap ''A'' 1 2 ''north''), (''B'', snap ''B'' 3 4 ''south'')])"
    by simp
  have g: "getPlayer (joined 100 100) ''p1'' = Some (snap ''p1'' 100 100 ''south'')"
    by (simp add: scenario_defs)
  from upsertMany_completeness [OF ok d, of "''A''" "''B''" "snap ''A'' 9 9 ''west''"
      "snap ''A'' 1 2 ''north''" "snap ''B'' 3 4 ''south''"] ok d g
  show ?thesis by simp
qed

subsection \<open>C6: the descriptor that comes with a joining player\<close>

text \<open>
  Claim C6 says that a descriptor whose kind is already in the store leaves the stored
  descriptor unchanged. On the code, \<^verbatim>\<open>handlePlayerJoined\<close> calls \<^verbatim>\<open>this.avatars.set\<close>
  without looking: a second descriptor of the kind \<open>fox\<close> replaces the first.
\<close>

theorem descriptor_overwritten_counterexample:
  "map_of (avatars (handlePlayerJoined (snap ''p2'' 5 5 ''south'') fox (newClient 800 600)))
     ''fox'' = Some fox \<and>
   map_of (avatars (handlePlayerJoined (snap ''p3'' 7 7 ''south'') foxWest
             (handlePlayerJoined (snap ''p2'' 5 5 ''south'') fox (newClient 800 600))))
     ''fox'' = Some foxWest \<and>
   avatar_name foxWest = avatar_name fox \<and> foxWest \<noteq> fox"
  by (simp add: scenario_defs foxWest_def update_conv')

text \<open>
  Claim C6, amended: a player-joined event binds the kind of its descriptor to that
  descriptor, whether the kind was in the store or not, and leaves the descriptor of
  every other kind as it was.
\<close>

theorem upsertOne_descriptor:
  "map_of (avatars (handlePlayerJoined p a s)) k =
     (if k = avatar_name a then Some a else map_of (avatars s) k)"
  by (simp add: handlePlayerJoined_def Let_def loadAvatarImages_def update_conv'
      parsePlayers_frame [of _ s])

theorem upsertOne_descriptor_witness:
  "map_of (avatars (handlePlayerJoined (snap ''p2'' 5 5 ''south'') foxWest (joined 100 100)))
     ''fox'' = Some foxWest \<and>
   map_of (avatars (handlePlayerJoined (snap ''p2'' 5 5 ''south'') foxWest (joined 100 100)))
     ''cat'' = None"
  using upsertOne_descriptor [of "snap ''p2'' 5 5 ''south''" foxWest "joined 100 100" "''fox''"]
    upsertOne_descriptor [of "snap ''p2'' 5 5 ''south''" foxWest "joined 100 100" "''cat''"]
  by (simp add: scenario_defs foxWest_def)

subsection \<open>C7: removing a player\<close>

text \<open>
  Claim C7: \<^verbatim>\<open>handlePlayerLeft\<close> has no failing branch; run twice with one id it leaves
  the client as one run does, and with an id that is not in the store it changes
  nothing but the dirty flag. After it the id is not in the store.
\<close>

theorem remove_idempotent:
  "handlePlayerLeft k (handlePlayerLeft k s) = handlePlayerLeft k s \<and>
   (k \<notin> fst ` set (players s) \<longrightarrow> handlePlayerLeft k s = s\<lparr>needsRedraw := True\<rparr>) \<and>
   getPlayer (handlePlayerLeft k s) k = None"
  by (simp add: handlePlayerLeft_def delete_idem getPlayer_def delete_conv')

theorem remove_idempotent_witness:
  "handlePlayerLeft ''p1'' (handlePlayerLeft ''p1'' (joined 100 100)) =
     handlePlayerLeft ''p1'' (joined 100 100) \<and>
   ''p7'' \<notin> fst ` set (players (joined 100 100)) \<and>
   handlePlayerLeft ''p7'' (joined 100 100) = (joined 100 100)\<lparr>needsRedraw := True\<rparr> \<and>
   getPlayer (joined 100 100) ''p1'' = Some (snap ''p1'' 100 100 ''south'') \<and>
   getPlayer (handlePlayerLeft ''p1'' (joined 100 100)) ''p1'' = None"
proof -
  have n: "''p7'' \<notin> fst ` set (players (joined 100 100))"
    and g: "getPlayer (joined 100 100) ''p1'' = Some (snap ''p1'' 100 100 ''south'')"
    by (simp_all add: scenario_defs)
  from remove_idempotent [of "''p1''" "joined 100 100"]
    remove_idempotent [of "''p7''" "joined 100 100"] n g
  show ?thesis by simp
qed

subsection \<open>C8: sending while the socket is not open\<close>

text \<open>
  Claim C8: while \<^verbatim>\<open>connected\<close> is false, \<^verbatim>\<open>sendMoveCommand\<close>, \<^verbatim>\<open>sendStopCommand\<close> and
  \<^verbatim>\<open>joinGame\<close> send nothing, keep nothing for later and leave the client as it is;
  while it is true, each hands exactly one message to the socket and changes nothing
  else.
\<close>

theorem send_dropped_when_disconnected:
  "(\<not> connected s \<longrightarrow>
      sendMoveCommand d s = s \<and> sendStopCommand s = s \<and> joinGame s = s) \<and>
   (connected s \<longrightarrow>
      sendMoveCommand d s = s\<lparr>sent := sent s @ [MoveMsg d]\<rparr> \<and>
      sendStopCommand s = s\<lparr>sent := sent s @ [StopMsg]\<rparr> \<and>
      joinGame s = s\<lparr>sent := sent s @ [JoinGameMsg ''Tim'']\<rparr>)"
  by (simp add: sendMoveCommand_def sendStopCommand_def joinGame_def)

theorem send_dropped_when_disconnected_witness:
  "\<not> connected (onClose (joined 100 100)) \<and>
   sendMoveCommand Left (onClose (joined 100 100)) = onClose (joined 100 100) \<and>
   sendStopCommand (onClose (joined 100 100)) = onClose (joined 100 100) \<and>
   joinGame (onClose (joined 100 100)) = onClose (joined 100 100) \<and>
   connected (joined 100 100) \<and>
   sent (joined 100 100) = [JoinGameMsg ''Tim''] \<and>
   sent (sendMoveCommand Left (joined 100 100)) = [JoinGameMsg ''Tim'', MoveMsg Left] \<and>
   sent (sendStopCommand (joined 100 100)) = [JoinGameMsg ''Tim'', StopMsg] \<and>
   sent (joinGame (joined 100 100)) = [JoinGameMsg ''Tim'', JoinGameMsg ''Tim'']"
proof -
  have c: "connected (joined 100 100)" and s: "sent (joined 100 100) = [JoinGameMsg ''Tim'']"
    by (simp_all add: scenario_defs)
  have n: "\<not> connected (onClose (joined 100 100))"
    by (simp add: onClose_def)
  from send_dropped_when_disconnected [of "onClose (joined 100 100)" Left]
    send_dropped_when_disconnected [of "joined 100 100" Left] c s n
  show ?thesis by simp
qed

subsection \<open>C9: a player facing west\<close>

text \<open>
  Claim C9 says that the sprite drawn for a player facing west is the mirror image of
  the one drawn for the same player facing east. Run on the code: \<^verbatim>\<open>drawAvatar\<close> looks
  the image up under the key of the player's own facing before it mirrors. With the
  frames of a kind loaded for north, south and east, the player facing east is drawn and
  the same player facing west is not drawn at all; once an image is loaded under the
  west key, that image is the one drawn mirrored, not the east image.
\<close>

theorem west_sprite_not_mirror_of_east:
  "drawAvatar (imageLoaded ''fox_east_0'' eastImage (joined 100 100))
     (snap ''p1'' 100 100 ''east'') 100 100 = [DrawImage eastImage 84 84 32 32] \<and>
   drawAvatar (imageLoaded ''fox_east_0'' eastImage (joined 100 100))
     (snap ''p1'' 100 100 ''west'') 100 100 = [] \<and>
   drawAvatar (imageLoaded ''fox_west_0'' westImage
                 (imageLoaded ''fox_east_0'' eastImage (joined 100 100)))
     (snap ''p1'' 100 100 ''west'') 100 100 =
     [Save, Scale (- 1) 1, DrawImage westImage (- 116) 84 32 32, Restore]"
  by (simp add: drawAvatar_def scenario_defs imageKey_def string_of_nat_0 eastImage_def
      westImage_def)

subsection \<open>C10: world and screen coordinates\<close>

text \<open>
  Claim C10 says that \<^verbatim>\<open>worldToScreen\<close> and \<^verbatim>\<open>screenToWorld\<close> are inverse to each other
  for every viewport and every point. On doubles they are not: with the tracked player
  at \<^verbatim>\<open>(1000.1, 300)\<close> in a window of 800 by 600 the viewport is at \<^verbatim>\<open>(600.1, 0)\<close>; the
  point \<^verbatim>\<open>(0.1, 0)\<close> goes to the screen point \<open>(- 600, 0)\<close>, the digits of \<^verbatim>\<open>0.1\<close> below
  the spacing of doubles near 600 are lost, and the way back gives
  \<^verbatim>\<open>0.10000000000002274\<close>.
\<close>

theorem round_trip_counterexample:
  "viewportX (joined (fl (10001 / 10)) 300) = 5278535422627021 / 8796093022208 \<and>
   viewportY (joined (fl (10001 / 10)) 300) = 0 \<and>
   worldToScreen (joined (fl (10001 / 10)) 300) (fl (1 / 10), 0) = (- 600, 0) \<and>
   screenToWorld (joined (fl (10001 / 10)) 300)
     (worldToScreen (joined (fl (10001 / 10)) 300) (fl (1 / 10), 0)) =
     (879609302221 / 8796093022208, 0) \<and>
   fl (1 / 10) = 3602879701896397 / 36028797018963968 \<and>
   screenToWorld (joined (fl (10001 / 10)) 300)
     (worldToScreen (joined (fl (10001 / 10)) 300) (fl (1 / 10), 0)) \<noteq> (fl (1 / 10), 0)"
proof -
  let ?s = "joined (fl (10001 / 10)) 300"
  have vx: "viewportX ?s = 5278535422627021 / 8796093022208"
    and vy: "viewportY ?s = 0"
    by (simp_all add: scenario_defs fl_1000_1)
  have "fl (3602879701896397 / 36028797018963968 - 5278535422627021 / 8796093022208) = - 600"
    unfolding fl_eval by (simp add: bit_length.simps)
  then have w: "worldToScreen ?s (fl (1 / 10), 0) = (- 600, 0)"
    by (simp add: worldToScreen_def vx vy fl_tenth fl_integers)
  have "fl (- 600 + 5278535422627021 / 8796093022208) = 879609302221 / 8796093022208"
    unfolding fl_eval by (simp add: bit_length.simps)
  then have b: "screenToWorld ?s (- 600, 0) = (879609302221 / 8796093022208, 0)"
    by (simp add: screenToWorld_def vx vy fl_integers)
  from vx vy w b show ?thesis
    by (simp add: fl_tenth)
qed

text \<open>
  Claim C10, amended: \<^verbatim>\<open>worldToScreen\<close> and \<^verbatim>\<open>screenToWorld\<close> translate by the viewport's
  top left corner in opposite directions, each result rounded to a double. For every
  viewport and every point \<open>p\<close> of doubles, \<open>screenToWorld (worldToScreen p) = p\<close> when
  \<open>p\<close> minus the viewport corner is a double on both axes (no rounding in
  \<^verbatim>\<open>worldToScreen\<close>), and \<open>worldToScreen (screenToWorld p) = p\<close> when \<open>p\<close> plus the viewport
  corner is a double on both axes.
\<close>

theorem coordinate_round_trip:
  "(is_double (fst p) \<and> is_double (snd p) \<and>
    is_double (fst p - viewportX s) \<and> is_double (snd p - viewportY s) \<longrightarrow>
      screenToWorld s (worldToScreen s p) = p) \<and>
   (is_double (fst p) \<and> is_double (snd p) \<and>
    is_double (fst p + viewportX s) \<and> is_double (snd p + viewportY s) \<longrightarrow>
      worldToScreen s (screenToWorld s p) = p)"
  by (simp add: is_double_def screenToWorld_def worldToScreen_def prod_eq_iff)

theorem coordinate_round_trip_witness:
  "is_double 1100 \<and> is_double 1000 \<and>
   is_double (1100 - viewportX (joined 1000 1000)) \<and>
   is_double (1000 - viewportY (joined 1000 1000)) \<and>
   worldToScreen (joined 1000 1000) (1100, 1000) = (500, 300) \<and>
   screenToWorld (joined 1000 1000) (worldToScreen (joined 1000 1000) (1100, 1000)) =
     (1100, 1000) \<and>
   is_double 500 \<and> is_double 300 \<and>
   is_double (500 + viewportX (joined 1000 1000)) \<and>
   is_double (300 + viewportY (joined 1000 1000)) \<and>
   worldToScreen (joined 1000 1000) (screenToWorld (joined 1000 1000) (500, 300)) = (500, 300)"
proof -
  have vx: "viewportX (joined 1000 1000) = 600" and vy: "viewportY (joined 1000 1000) = 700"
    by (simp_all add: scenario_defs)
  have d: "is_double 1100" "is_double 1000" "is_double 500" "is_double 300"
    by (simp_all add: is_double_def fl_integers)
  have w: "worldToScreen (joined 1000 1000) (1100, 1000) = (500, 300)"
    by (simp add: worldToScreen_def vx vy fl_integers)
  from coordinate_round_trip [of "(1100, 1000)" "joined 1000 1000"]
    coordinate_round_trip [of "(500, 300)" "joined 1000 1000"] d w vx vy
  show ?thesis by simp
qed

end
